theory Spec2Isabelle
  imports Complex_Main "HOL-Library.AList"
begin

section \<open>Data model\<close>

text \<open>
  Grid coordinates are Python integers. A knowledge mapping is a Python \<open>dict\<close>
  from customer index to coordinate; it is kept as an association list with distinct
  keys in insertion order, and \<open>d[k] = v\<close> is \<open>AList.update k v d\<close> (an existing
  key keeps its place, a new key is appended), which is the order Python iterates in.
  Floating-point values (battery, speeds, rotation, means, distances) are idealised as
  reals; every random draw is an explicit argument of the function that makes it.
\<close>

type_synonym pos = "int \<times> int"
type_synonym dict = "(nat \<times> pos) list"

record agent =
  agent_id :: nat
  pos :: pos
  is_byzantine :: bool
  knowledge :: dict
  step :: int
  direction :: nat
  spiral_length :: int
  steps_in_current_direction :: int
  turns_taken :: int
  battery :: real
  battery_drain_rate :: real
  max_speed :: real
  current_speed :: real
  rotation :: real
  turning_rate :: real
  last_positions :: "pos list"
  message_cooldown :: int
  lie_probability :: real
  distortion_range :: "int \<times> int"

record environment =
  size :: int
  customers :: "pos list"
  step_count :: int

text \<open>\<open>Agent.__init__\<close>; the drain rate is the draw \<open>random.uniform(0.08, 0.12)\<close>.\<close>

definition new_agent :: "nat \<Rightarrow> pos \<Rightarrow> bool \<Rightarrow> real \<Rightarrow> agent" where
  "new_agent i p byz rate =
     \<lparr> agent_id = i, pos = p, is_byzantine = byz, knowledge = [], step = 0,
       direction = 0, spiral_length = 1, steps_in_current_direction = 0, turns_taken = 0,
       battery = 100, battery_drain_rate = rate, max_speed = 1, current_speed = 1,
       rotation = 0, turning_rate = 15, last_positions = [], message_cooldown = 0,
       lie_probability = 7 / 10, distortion_range = (-5, 5) \<rparr>"

text \<open>\<open>math.sqrt((cx - x)**2 + (cy - y)**2)\<close> and \<open>distance.euclidean\<close>.\<close>

definition euclidean :: "real \<times> real \<Rightarrow> real \<times> real \<Rightarrow> real" where
  "euclidean p q = sqrt ((fst p - fst q)\<^sup>2 + (snd p - snd q)\<^sup>2)"

definition rpos :: "pos \<Rightarrow> real \<times> real" where
  "rpos p = (real_of_int (fst p), real_of_int (snd p))"

text \<open>\<open>max(0, min(size - 1, v))\<close>, the clamp every movement path applies.\<close>

definition clamp_grid :: "int \<Rightarrow> int \<Rightarrow> int" where
  "clamp_grid sz v = max 0 (min (sz - 1) v)"

section \<open>Sensing\<close>

text \<open>
  The draws one customer may consume in \<open>Agent.observe\<close>: \<open>random.random()\<close> for
  the decision to lie and the two \<open>random.randint(*distortion_range)\<close> offsets.
\<close>

record observe_draws =
  lie_draw :: real
  off_x :: int
  off_y :: int

definition observe_one :: "environment \<Rightarrow> (nat \<Rightarrow> observe_draws) \<Rightarrow> agent \<Rightarrow> nat \<times> pos \<Rightarrow> agent" where
  "observe_one env dr a ic =
     (let i = fst ic; cx = fst (snd ic); cy = snd (snd ic) in
      if euclidean (rpos (cx, cy)) (rpos (pos a)) \<le> 3 then
        if \<not> is_byzantine a then
          a\<lparr>knowledge := AList.update i (cx, cy) (knowledge a), message_cooldown := 5\<rparr>
        else if lie_draw (dr i) < lie_probability a then
          (let fake_x = clamp_grid (size env) (cx + off_x (dr i));
               fake_y = clamp_grid (size env) (cy + off_y (dr i))
           in a\<lparr>knowledge := AList.update i (fake_x, fake_y) (knowledge a),
                message_cooldown := 5\<rparr>)
        else
          a\<lparr>knowledge := AList.update i (cx, cy) (knowledge a), message_cooldown := 5\<rparr>
      else a)"

definition observe :: "environment \<Rightarrow> (nat \<Rightarrow> observe_draws) \<Rightarrow> agent \<Rightarrow> agent" where
  "observe env dr a = foldl (observe_one env dr) a (enumerate 0 (customers env))"


section \<open>Battery, wind and movement\<close>

datatype py_error = IndexError | KeyError

text \<open>\<open>int(x)\<close> on a float and \<open>astype(int)\<close>: truncation toward zero.\<close>

definition py_int :: "real \<Rightarrow> int" where
  "py_int x = (if 0 \<le> x then \<lfloor>x\<rfloor> else \<lceil>x\<rceil>)"

text \<open>Python's \<open>x % 360\<close> on floats: the result has the sign of the divisor.\<close>

definition fmod360 :: "real \<Rightarrow> real" where
  "fmod360 x = x - 360 * real_of_int \<lfloor>x / 360\<rfloor>"

text \<open>
  \<open>Agent.drain_battery\<close>; \<open>u\<close> is the draw \<open>random.uniform(0.9, 1.1)\<close>. The
  second component is the returned flag \<open>battery > 0\<close>.
\<close>

definition drain_battery :: "real \<Rightarrow> agent \<Rightarrow> agent \<times> bool" where
  "drain_battery u a =
     (let speed_factor = current_speed a / max_speed a;
          b = battery a - battery_drain_rate a * speed_factor * u;
          a' = a\<lparr>battery := max 0 b\<rparr>
      in (a', battery a' > 0))"

text \<open>
  \<open>Agent.apply_wind\<close>; \<open>ux\<close> and \<open>uy\<close> are the two draws
  \<open>random.uniform(0, 0.5)\<close>. The upper clamp is the literal 19 of the source.
\<close>

definition apply_wind :: "real \<Rightarrow> real \<Rightarrow> real \<Rightarrow> real \<Rightarrow> agent \<Rightarrow> agent" where
  "apply_wind wind_dx wind_dy ux uy a =
     (if current_speed a > 0 then
        (let x = real_of_int (fst (pos a)) + wind_dx * ux;
             y = real_of_int (snd (pos a)) + wind_dy * uy;
             x' = max 0 (min (py_int x) 19);
             y' = max 0 (min (py_int y) 19)
         in a\<lparr>pos := (x', y')\<rparr>)
      else a)"

text \<open>\<open>Agent._move_random\<close>; \<open>dx\<close>, \<open>dy\<close> are the draws \<open>random.choice([-1, 0, 1])\<close>.\<close>

definition move_random :: "environment \<Rightarrow> int \<Rightarrow> int \<Rightarrow> agent \<Rightarrow> agent" where
  "move_random env dx dy a =
     (let new_x = clamp_grid (size env) (fst (pos a) + dx);
          new_y = clamp_grid (size env) (snd (pos a) + dy)
      in a\<lparr>pos := (new_x, new_y), step := step a + 1\<rparr>)"

text \<open>
  The gradual turn toward a target angle; the source repeats this block in
  \<open>_move_toward_target\<close> and in \<open>_move_spiral\<close>.
\<close>

definition turn_rotation :: "real \<Rightarrow> agent \<Rightarrow> agent" where
  "turn_rotation target a =
     (let angle_diff = fmod360 (target - rotation a + 180) - 180 in
      if \<bar>angle_diff\<bar> > turning_rate a then
        (if angle_diff > 0 then a\<lparr>rotation := fmod360 (rotation a + turning_rate a)\<rparr>
         else a\<lparr>rotation := fmod360 (rotation a - turning_rate a)\<rparr>)
      else a\<lparr>rotation := target\<rparr>)"

text \<open>
  The instance attribute \<open>spiral_directions\<close> (set in \<open>__init__\<close>, never assigned
  again) and the local table \<open>target_rotations\<close> of \<open>_move_spiral\<close>.
\<close>

definition spiral_directions :: "pos list" where
  "spiral_directions = [(0, 1), (1, 0), (0, -1), (-1, 0)]"

definition target_rotations :: "real list" where
  "target_rotations = [0, 90, 180, 270]"

text \<open>
  \<open>Agent._move_spiral\<close>. Indexing \<open>spiral_directions\<close> with a direction outside
  the table raises \<open>IndexError\<close>.
\<close>

definition move_spiral :: "environment \<Rightarrow> agent \<Rightarrow> py_error + agent" where
  "move_spiral env a =
     (if direction a \<ge> length spiral_directions then Inl IndexError
      else
        (let dx = fst (spiral_directions ! direction a);
             dy = snd (spiral_directions ! direction a);
             new_x = clamp_grid (size env) (fst (pos a) + dx);
             new_y = clamp_grid (size env) (snd (pos a) + dy);
             a1 = turn_rotation (target_rotations ! direction a) a;
             blocked = (new_x = fst (pos a1) \<and> new_y = snd (pos a1));
             d2 = (if blocked then (direction a1 + 1) mod 4 else direction a1);
             dx2 = fst (spiral_directions ! d2);
             dy2 = snd (spiral_directions ! d2);
             new_x2 = (if blocked then clamp_grid (size env) (fst (pos a1) + dx2) else new_x);
             new_y2 = (if blocked then clamp_grid (size env) (snd (pos a1) + dy2) else new_y);
             a2 = a1\<lparr>direction := d2, pos := (new_x2, new_y2), step := step a1 + 1,
                     steps_in_current_direction := steps_in_current_direction a1 + 1\<rparr>
         in if steps_in_current_direction a2 \<ge> spiral_length a2 then
              (let a3 = a2\<lparr>direction := (direction a2 + 1) mod 4,
                            steps_in_current_direction := 0,
                            turns_taken := turns_taken a2 + 1\<rparr>
               in if turns_taken a3 mod 2 = 0
                  then Inr (a3\<lparr>spiral_length := spiral_length a3 + 1\<rparr>)
                  else Inr a3)
            else Inr a2))"

text \<open>Consecutive calls of \<open>_move_spiral\<close>; an error ends the run.\<close>

fun spiral_run :: "environment \<Rightarrow> nat \<Rightarrow> agent \<Rightarrow> py_error + agent" where
  "spiral_run env 0 a = Inr a"
| "spiral_run env (Suc n) a =
     (case spiral_run env n a of Inl e \<Rightarrow> Inl e | Inr b \<Rightarrow> move_spiral env b)"

text \<open>
  The draws of one call of \<open>Agent.move\<close>: the battery noise, the erratic-move roll
  of a Byzantine agent, the two random-walk deltas, the jitter roll with its two offsets,
  and the draws of the sensing that follows.
\<close>

record move_draws =
  drain_u :: real
  erratic :: real
  rand_dx :: int
  rand_dy :: int
  jitter :: real
  jitter_x :: real
  jitter_y :: real
  sense :: "nat \<Rightarrow> observe_draws"

text \<open>
  The search for the nearest known customer in \<open>_move_toward_target\<close>: the
  accumulator is \<open>(nearest_customer_id, nearest_distance)\<close>, with \<open>None\<close> for the
  initial \<open>None\<close> and \<open>float('inf')\<close>.
\<close>

definition nearest_step :: "pos \<Rightarrow> (nat \<times> real) option \<Rightarrow> nat \<times> pos \<Rightarrow> (nat \<times> real) option" where
  "nearest_step p best cp =
     (let distance = euclidean (rpos (snd cp)) (rpos p) in
      case best of
        None \<Rightarrow> Some (fst cp, distance)
      | Some (bid, bd) \<Rightarrow> if distance < bd then Some (fst cp, distance) else Some (bid, bd))"

definition nearest_customer :: "agent \<Rightarrow> (nat \<times> real) option" where
  "nearest_customer a = foldl (nearest_step (pos a)) None (knowledge a)"

text \<open>
  \<open>math.degrees(math.atan2(dy, dx))\<close>: the argument of the point \<open>(dx, dy)\<close> in
  \<open>(-pi, pi]\<close>, and 0 at the origin.
\<close>

definition atan2_degrees :: "real \<Rightarrow> real \<Rightarrow> real" where
  "atan2_degrees dy dx = Arg (Complex dx dy) * 180 / pi"

definition radians :: "real \<Rightarrow> real" where
  "radians d = d * pi / 180"

text \<open>\<open>Agent._move_toward_target\<close>.\<close>

definition move_toward_target :: "environment \<Rightarrow> move_draws \<Rightarrow> agent \<Rightarrow> py_error + agent" where
  "move_toward_target env dr a =
     (case nearest_customer a of
        None \<Rightarrow> move_spiral env a
      | Some (cid, d) \<Rightarrow>
          (case map_of (knowledge a) cid of
             None \<Rightarrow> Inl KeyError
           | Some target \<Rightarrow>
               (let dx = real_of_int (fst target - fst (pos a));
                    dy = real_of_int (snd target - snd (pos a));
                    angle0 = atan2_degrees dy dx;
                    target_angle = (if angle0 < 0 then angle0 + 360 else angle0);
                    a1 = turn_rotation target_angle a;
                    move_dx0 = cos (radians (rotation a1)) * current_speed a1;
                    move_dy0 = sin (radians (rotation a1)) * current_speed a1;
                    move_dx = (if jitter dr < 1 / 10 then move_dx0 + jitter_x dr else move_dx0);
                    move_dy = (if jitter dr < 1 / 10 then move_dy0 + jitter_y dr else move_dy0);
                    new_x = clamp_grid (size env) (py_int (real_of_int (fst (pos a1)) + move_dx));
                    new_y = clamp_grid (size env) (py_int (real_of_int (snd (pos a1)) + move_dy))
                in Inr (a1\<lparr>pos := (new_x, new_y), step := step a1 + 1\<rparr>))))"

text \<open>\<open>Agent.move\<close>.\<close>

definition move :: "environment \<Rightarrow> move_draws \<Rightarrow> agent \<Rightarrow> py_error + agent" where
  "move env dr a =
     (let a1 = fst (drain_battery (drain_u dr) a);
          alive = snd (drain_battery (drain_u dr) a)
      in if \<not> alive then Inr a1
         else if is_byzantine a1 \<and> erratic dr < 1 / 10 then
           Inr (move_random env (rand_dx dr) (rand_dy dr) a1)
         else
           (case (if knowledge a1 \<noteq> [] \<and> \<not> is_byzantine a1
                  then move_toward_target env dr a1
                  else move_spiral env a1) of
              Inl e \<Rightarrow> Inl e
            | Inr a2 \<Rightarrow>
                (let a3 = observe env (sense dr) a2;
                     lp = last_positions a3 @ [pos a3]
                 in Inr (a3\<lparr>last_positions := (if length lp > 20 then tl lp else lp)\<rparr>))))"

text \<open>
  The body of the driver's loop over the agents in \<open>main\<close>: with the gust roll below
  half the wind strength the wind is applied, then the agent moves.
\<close>

record wind_draws =
  gust :: real
  wind_ux :: real
  wind_uy :: real

definition drive_agent ::
  "real \<Rightarrow> real \<Rightarrow> wind_draws \<Rightarrow> environment \<Rightarrow> move_draws \<Rightarrow> agent \<Rightarrow> py_error + agent" where
  "drive_agent wind_direction wind_strength wd env dr a =
     (let a1 = (if gust wd < wind_strength * (1 / 2) then
                  (let wind_dx = cos (radians wind_direction) * wind_strength;
                       wind_dy = sin (radians wind_direction) * wind_strength
                   in apply_wind wind_dx wind_dy (wind_ux wd) (wind_uy wd) a)
                else a)
      in move env dr a1)"

section \<open>Targets\<close>

text \<open>
  \<open>Environment.move_customers\<close>; \<open>dr i\<close> holds the two draws
  \<open>np.random.choice([-1, 0, 1])\<close> for customer \<open>i\<close>.
\<close>

definition move_customers :: "(nat \<Rightarrow> int \<times> int) \<Rightarrow> environment \<Rightarrow> environment" where
  "move_customers dr env =
     (let env' = (if step_count env mod 5 = 0 then
                    env\<lparr>customers :=
                          map (\<lambda>ic. (clamp_grid (size env) (fst (snd ic) + fst (dr (fst ic))),
                                     clamp_grid (size env) (snd (snd ic) + snd (dr (fst ic)))))
                              (enumerate 0 (customers env))\<rparr>
                  else env)
      in env'\<lparr>step_count := step_count env' + 1\<rparr>)"

section \<open>Performance metric\<close>

text \<open>The result of \<open>competitive_ratio\<close>: a finite number or \<open>float('inf')\<close>.\<close>

datatype ratio = Finite real | PosInf

text \<open>
  The inner \<open>min(distance.euclidean(agent.pos, c) for c in env.customers)\<close>; the
  source evaluates it only when there is a customer.
\<close>

definition nearest_dist :: "environment \<Rightarrow> agent \<Rightarrow> real" where
  "nearest_dist env a = min_list (map (\<lambda>c. euclidean (rpos (pos a)) (rpos c)) (customers env))"

definition competitive_ratio :: "agent list \<Rightarrow> environment \<Rightarrow> ratio" where
  "competitive_ratio agents env =
     (let total_steps = sum_list (map step agents) in
      if customers env = [] then Finite (real_of_int total_steps)
      else
        (let optimal = sum_list (map (nearest_dist env) agents)
         in if optimal > 0 then Finite (real_of_int total_steps / optimal) else PosInf))"

section \<open>Knowledge sharing and consensus\<close>

text \<open>
  \<open>Agent.share_knowledge\<close>; \<open>r\<close> is the draw \<open>random.random()\<close>, which the source
  makes only when the battery is below 20. The result is the agent after the call and
  the returned mapping.
\<close>

definition share_knowledge :: "real \<Rightarrow> agent \<Rightarrow> agent \<times> dict" where
  "share_knowledge r a =
     (let a' = (if message_cooldown a > 0
                then a\<lparr>message_cooldown := message_cooldown a - 1\<rparr> else a)
      in if battery a' < 20 \<and> r < 3 / 10 then (a', []) else (a', knowledge a'))"

text \<open>
  The same function over an object store, for the identity of the returned mapping:
  a dict object lives at an address of the store (its index), \<open>kref\<close> is the address
  of the agent's own \<open>knowledge\<close>, and both \<open>{}\<close> and \<open>.copy()\<close> allocate a new
  object. The result is the store after the call and the returned address.
\<close>

definition share_knowledge_store :: "real \<Rightarrow> agent \<Rightarrow> dict list \<Rightarrow> nat \<Rightarrow> dict list \<times> nat" where
  "share_knowledge_store r a store kref =
     (if battery a < 20 \<and> r < 3 / 10 then (store @ [[]], length store)
      else (store @ [store ! kref], length store))"

text \<open>\<open>d[k] = v\<close> on an object of the store.\<close>

definition store_setitem :: "dict list \<Rightarrow> nat \<Rightarrow> nat \<Rightarrow> pos \<Rightarrow> dict list" where
  "store_setitem store ref k v = store[ref := AList.update k v (store ! ref)]"

text \<open>\<open>shared.update(report)\<close>.\<close>

definition dict_update :: "dict \<Rightarrow> dict \<Rightarrow> dict" where
  "dict_update shared report = foldl (\<lambda>d kv. AList.update (fst kv) (snd kv) d) shared report"

text \<open>
  The inner loop of \<open>Consensus.update_knowledge\<close> over \<open>other\<close> for the receiver
  with index \<open>i\<close>; agents are compared by identity, which is their index in the fleet.
  \<open>rnd i j\<close> is the draw of the call of \<open>share_knowledge\<close> that receiver \<open>i\<close> makes
  on agent \<open>j\<close>.
\<close>

definition absorb :: "(nat \<Rightarrow> nat \<Rightarrow> real) \<Rightarrow> nat \<Rightarrow> agent list \<times> dict \<Rightarrow> nat \<Rightarrow> agent list \<times> dict" where
  "absorb rnd i st j =
     (let agents = fst st; shared = snd st in
      if euclidean (rpos (pos (agents ! i))) (rpos (pos (agents ! j))) \<le> 5 \<and> i \<noteq> j then
        (let res = share_knowledge (rnd i j) (agents ! j)
         in (agents[j := fst res], dict_update shared (snd res)))
      else st)"

definition positions_of :: "agent list \<Rightarrow> nat \<Rightarrow> pos list" where
  "positions_of agents cid =
     concat (map (\<lambda>a. map snd (filter (\<lambda>cp. fst cp = cid) (knowledge a))) agents)"

text \<open>\<open>np.mean(positions, axis=0)\<close>.\<close>

definition mean_pos :: "pos list \<Rightarrow> real \<times> real" where
  "mean_pos ps = (real_of_int (sum_list (map fst ps)) / real (length ps),
                  real_of_int (sum_list (map snd ps)) / real (length ps))"

text \<open>
  The body of the loop over \<open>cid in shared\<close> for the receiver with index \<open>i\<close>,
  in two parts: \<open>fused_value\<close> is the decision (the tuple to store, or \<open>None\<close>
  when \<open>positions\<close> is empty or the count is below \<open>len(self.agents) // 2\<close>), and
  \<open>write_knowledge\<close> is the assignment \<open>agent.knowledge[cid] = ...\<close>.
\<close>

definition fused_value :: "agent list \<Rightarrow> nat \<Rightarrow> pos option" where
  "fused_value agents cid =
     (let positions = positions_of agents cid in
      if positions \<noteq> [] then
        (let avg_pos = mean_pos positions in
         if length (filter (\<lambda>p. euclidean (rpos p) avg_pos < 3) positions)
              \<ge> length agents div 2
         then Some (py_int (fst avg_pos), py_int (snd avg_pos))
         else None)
      else None)"

definition write_knowledge :: "nat \<Rightarrow> agent list \<Rightarrow> nat \<Rightarrow> pos \<Rightarrow> agent list" where
  "write_knowledge i agents cid v =
     agents[i := (agents ! i)\<lparr>knowledge := AList.update cid v (knowledge (agents ! i))\<rparr>]"

definition fuse :: "nat \<Rightarrow> agent list \<Rightarrow> nat \<Rightarrow> agent list" where
  "fuse i agents cid =
     (case fused_value agents cid of
        None \<Rightarrow> agents
      | Some v \<Rightarrow> write_knowledge i agents cid v)"

text \<open>The body of the outer loop: one receiving agent.\<close>

definition gather :: "(nat \<Rightarrow> nat \<Rightarrow> real) \<Rightarrow> agent list \<Rightarrow> nat \<Rightarrow> agent list \<times> dict" where
  "gather rnd agents i = foldl (absorb rnd i) (agents, []) [0..<length agents]"

definition update_agent :: "(nat \<Rightarrow> nat \<Rightarrow> real) \<Rightarrow> agent list \<Rightarrow> nat \<Rightarrow> agent list" where
  "update_agent rnd agents i =
     foldl (fuse i) (fst (gather rnd agents i)) (map fst (snd (gather rnd agents i)))"

text \<open>
  \<open>Consensus.update_knowledge\<close>, and the same loop over the receivers taken in another
  order.
\<close>

definition update_knowledge :: "(nat \<Rightarrow> nat \<Rightarrow> real) \<Rightarrow> agent list \<Rightarrow> agent list" where
  "update_knowledge rnd agents = foldl (update_agent rnd) agents [0..<length agents]"

definition update_knowledge_in_order ::
  "(nat \<Rightarrow> nat \<Rightarrow> real) \<Rightarrow> nat list \<Rightarrow> agent list \<Rightarrow> agent list" where
  "update_knowledge_in_order rnd order agents = foldl (update_agent rnd) agents order"

text \<open>The fleet as it stands when the outer loop reaches receiver \<open>i\<close>.\<close>

definition fleet_before :: "(nat \<Rightarrow> nat \<Rightarrow> real) \<Rightarrow> agent list \<Rightarrow> nat \<Rightarrow> agent list" where
  "fleet_before rnd agents i = foldl (update_agent rnd) agents [0..<i]"

subsection \<open>Snapshot semantics, as the specification words it\<close>

text \<open>
  The specification asks that every mean and quorum decision of a pass be computed from
  the knowledge mappings as they were before any write of the pass. Here \<open>snap\<close> is
  that snapshot: the reports and the decisions of receiver \<open>i\<close> are read from it,
  and only the writes (and the cooldown effect of the calls) go to the current fleet.
\<close>

definition fuse_from :: "agent list \<Rightarrow> nat \<Rightarrow> agent list \<Rightarrow> nat \<Rightarrow> agent list" where
  "fuse_from snap i agents cid =
     (case fused_value snap cid of
        None \<Rightarrow> agents
      | Some v \<Rightarrow> write_knowledge i agents cid v)"

definition update_agent_snapshot ::
  "agent list \<Rightarrow> (nat \<Rightarrow> nat \<Rightarrow> real) \<Rightarrow> agent list \<Rightarrow> nat \<Rightarrow> agent list" where
  "update_agent_snapshot snap rnd agents i =
     foldl (fuse_from snap i) (fst (gather rnd agents i)) (map fst (snd (gather rnd snap i)))"

definition update_knowledge_snapshot :: "(nat \<Rightarrow> nat \<Rightarrow> real) \<Rightarrow> agent list \<Rightarrow> agent list" where
  "update_knowledge_snapshot rnd agents =
     foldl (update_agent_snapshot agents rnd) agents [0..<length agents]"

section \<open>Concrete configurations\<close>

text \<open>The grid of the driver: \<open>Environment(size=20)\<close> with one customer at (10, 10).\<close>

definition env20 :: environment where
  "env20 = \<lparr> size = 20, customers = [(10, 10)], step_count = 0 \<rparr>"

text \<open>A Byzantine agent next to that customer, and draws with which it lies.\<close>

definition liar :: agent where
  "liar = new_agent 0 (10, 9) True (1 / 10)"

definition lying_draws :: "nat \<Rightarrow> observe_draws" where
  "lying_draws i = \<lparr> lie_draw = 1 / 2, off_x = 5, off_y = -3 \<rparr>"

text \<open>An agent standing on the customer and one far from it, with steps already taken.\<close>

definition walker :: agent where
  "walker = (new_agent 1 (10, 10) False (1 / 10))\<lparr>step := 3\<rparr>"

definition far_agent :: agent where
  "far_agent = (new_agent 2 (0, 0) False (1 / 10))\<lparr>step := 4\<rparr>"

text \<open>
  Two agents one cell apart that hold different coordinates for customer 0, with full
  batteries (no report is dropped, whatever the draw).
\<close>

definition agent_a :: agent where
  "agent_a = (new_agent 0 (0, 0) False (1 / 10))\<lparr>knowledge := [(0, (0, 0))]\<rparr>"

definition agent_b :: agent where
  "agent_b = (new_agent 1 (1, 0) False (1 / 10))\<lparr>knowledge := [(0, (4, 0))]\<rparr>"

definition agent_c :: agent where
  "agent_c = (new_agent 1 (3, 0) False (1 / 10))\<lparr>knowledge := [(0, (6, 0))]\<rparr>"

definition no_draw :: "nat \<Rightarrow> nat \<Rightarrow> real" where
  "no_draw i j = 1 / 2"

section \<open>Facts about sensing\<close>

lemma euclidean_le_iff:
  "0 \<le> r \<Longrightarrow> euclidean p q \<le> r \<longleftrightarrow> (fst p - fst q)\<^sup>2 + (snd p - snd q)\<^sup>2 \<le> r\<^sup>2"
  unfolding euclidean_def
  by (metis real_sqrt_le_iff real_sqrt_abs abs_of_nonneg)

lemma euclidean_less_iff:
  "0 \<le> r \<Longrightarrow> euclidean p q < r \<longleftrightarrow> (fst p - fst q)\<^sup>2 + (snd p - snd q)\<^sup>2 < r\<^sup>2"
  unfolding euclidean_def
  by (metis real_sqrt_less_iff real_sqrt_abs abs_of_nonneg)

lemma observe_one_pos [simp]: "pos (observe_one env dr a ic) = pos a"
  by (simp add: observe_one_def Let_def)

lemma observe_one_other_key:
  "fst ic \<noteq> k \<Longrightarrow> map_of (knowledge (observe_one env dr a ic)) k = map_of (knowledge a) k"
  by (simp add: observe_one_def Let_def update_conv')

lemma observe_fold_pos [simp]: "pos (foldl (observe_one env dr) a ics) = pos a"
  by (induction ics arbitrary: a) simp_all

lemma observe_fold_other_key:
  "k \<notin> fst ` set ics \<Longrightarrow>
   map_of (knowledge (foldl (observe_one env dr) a ics)) k = map_of (knowledge a) k"
  by (induction ics arbitrary: a) (simp_all add: observe_one_other_key)


lemma enumerate_split:
  "i < length cs \<Longrightarrow>
   enumerate 0 cs = enumerate 0 (take i cs) @ (i, cs ! i) # enumerate (Suc i) (drop (Suc i) cs)"
proof -
  assume h: "i < length cs"
  have "enumerate 0 cs = enumerate 0 (take i cs @ cs ! i # drop (Suc i) cs)"
    using id_take_nth_drop [OF h] by simp
  also have "\<dots> = enumerate 0 (take i cs) @ (i, cs ! i) # enumerate (Suc i) (drop (Suc i) cs)"
    using h by (simp add: enumerate_append_eq min_def)
  finally show ?thesis .
qed

lemma observe_one_flags [simp]:
  "is_byzantine (observe_one env dr a ic) = is_byzantine a"
  "lie_probability (observe_one env dr a ic) = lie_probability a"
  by (simp_all add: observe_one_def Let_def)

lemma observe_fold_flags [simp]:
  "is_byzantine (foldl (observe_one env dr) a ics) = is_byzantine a"
  "lie_probability (foldl (observe_one env dr) a ics) = lie_probability a"
  by (induction ics arbitrary: a) simp_all

lemma observe_key:
  assumes "i < length (customers env)"
  shows "\<exists>b. pos b = pos a \<and> is_byzantine b = is_byzantine a \<and>
     lie_probability b = lie_probability a \<and>
     map_of (knowledge (observe env dr a)) i =
     map_of (knowledge (observe_one env dr b (i, customers env ! i))) i"
proof -
  let ?cs = "customers env"
  let ?b = "foldl (observe_one env dr) a (enumerate 0 (take i ?cs))"
  have "i \<notin> fst ` set (enumerate (Suc i) (drop (Suc i) ?cs))"
    by (auto simp: in_set_enumerate_eq)
  then have "map_of (knowledge (observe env dr a)) i =
     map_of (knowledge (observe_one env dr ?b (i, ?cs ! i))) i"
    unfolding observe_def
    by (simp add: enumerate_split [OF assms] observe_fold_other_key)
  then show ?thesis by (intro exI [of _ ?b]) simp
qed

lemma clamp_grid_bounds: "0 < sz \<Longrightarrow> 0 \<le> clamp_grid sz v \<and> clamp_grid sz v \<le> sz - 1"
  by (simp add: clamp_grid_def)

lemma clamp_grid_near:
  "0 \<le> c \<Longrightarrow> c \<le> sz - 1 \<Longrightarrow> \<bar>clamp_grid sz (c + d) - c\<bar> \<le> \<bar>d\<bar>"
  by (simp add: clamp_grid_def max_def min_def)

text \<open>
  C6. When a Byzantine agent senses an in-range customer whose true coordinate is inside
  the grid and its roll makes it lie, the coordinate that \<open>observe\<close> leaves in its
  knowledge for that customer is the clamped distorted one: it differs from the true
  coordinate by at most 5 on each axis and lies in \<open>[0, size - 1]\<close> on both. The
  offsets are draws of \<open>random.randint(*distortion_range)\<close>, hence inside the range.
\<close>

theorem observe_byzantine_distortion_bound:
  assumes byz: "is_byzantine a"
    and idx: "i < length (customers env)"
    and cust: "customers env ! i = (cx, cy)"
    and inrange: "euclidean (rpos (cx, cy)) (rpos (pos a)) \<le> 3"
    and lies: "lie_draw (dr i) < lie_probability a"
    and rng: "distortion_range a = (-5, 5)"
    and ox: "fst (distortion_range a) \<le> off_x (dr i)" "off_x (dr i) \<le> snd (distortion_range a)"
    and oy: "fst (distortion_range a) \<le> off_y (dr i)" "off_y (dr i) \<le> snd (distortion_range a)"
    and inx: "0 \<le> cx" "cx \<le> size env - 1"
    and iny: "0 \<le> cy" "cy \<le> size env - 1"
  shows "\<exists>fx fy. map_of (knowledge (observe env dr a)) i = Some (fx, fy)
           \<and> fx = clamp_grid (size env) (cx + off_x (dr i))
           \<and> fy = clamp_grid (size env) (cy + off_y (dr i))
           \<and> \<bar>fx - cx\<bar> \<le> 5 \<and> \<bar>fy - cy\<bar> \<le> 5
           \<and> 0 \<le> fx \<and> fx \<le> size env - 1 \<and> 0 \<le> fy \<and> fy \<le> size env - 1"
proof -
  obtain b where b: "pos b = pos a" "is_byzantine b = is_byzantine a"
    "lie_probability b = lie_probability a"
    "map_of (knowledge (observe env dr a)) i =
     map_of (knowledge (observe_one env dr b (i, customers env ! i))) i"
    using observe_key [OF idx] by blast
  have dx: "\<bar>off_x (dr i)\<bar> \<le> 5" and dy: "\<bar>off_y (dr i)\<bar> \<le> 5"
    using ox oy rng by simp_all
  have sz: "0 < size env" using inx by simp
  have "map_of (knowledge (observe env dr a)) i =
     Some (clamp_grid (size env) (cx + off_x (dr i)), clamp_grid (size env) (cy + off_y (dr i)))"
    using b byz lies inrange cust
    by (simp add: observe_one_def Let_def update_conv')
  moreover have "\<bar>clamp_grid (size env) (cx + off_x (dr i)) - cx\<bar> \<le> 5"
    using clamp_grid_near [OF inx, of "off_x (dr i)"] dx by linarith
  moreover have "\<bar>clamp_grid (size env) (cy + off_y (dr i)) - cy\<bar> \<le> 5"
    using clamp_grid_near [OF iny, of "off_y (dr i)"] dy by linarith
  ultimately show ?thesis
    using clamp_grid_bounds [OF sz] by simp
qed


theorem observe_byzantine_distortion_bound_witness:
  "is_byzantine liar \<and> customers env20 ! 0 = (10, 10)
   \<and> euclidean (rpos (10, 10)) (rpos (pos liar)) \<le> 3
   \<and> lie_draw (lying_draws 0) < lie_probability liar
   \<and> map_of (knowledge (observe env20 lying_draws liar)) 0 = Some (15, 7)"
  using observe_byzantine_distortion_bound [of liar 0 env20 10 10 lying_draws]
  by (simp add: liar_def new_agent_def env20_def lying_draws_def euclidean_le_iff rpos_def
      clamp_grid_def)

section \<open>Facts about the metric\<close>

lemma euclidean_nonneg: "0 \<le> euclidean p q"
  by (simp add: euclidean_def)

lemma euclidean_rpos_zero_iff: "euclidean (rpos p) (rpos q) = 0 \<longleftrightarrow> p = q"
  by (cases p; cases q) (simp add: euclidean_def rpos_def sum_power2_eq_zero_iff)


lemma nearest_dist_Min:
  "customers env \<noteq> [] \<Longrightarrow>
   nearest_dist env a = Min ((\<lambda>c. euclidean (rpos (pos a)) (rpos c)) ` set (customers env))"
  by (simp add: nearest_dist_def min_list_Min)

lemma nearest_dist_nonneg: "customers env \<noteq> [] \<Longrightarrow> 0 \<le> nearest_dist env a"
  by (simp add: nearest_dist_Min euclidean_nonneg)

lemma nearest_dist_zero_iff:
  assumes "customers env \<noteq> []"
  shows "nearest_dist env a = 0 \<longleftrightarrow> pos a \<in> set (customers env)"
proof -
  let ?D = "(\<lambda>c. euclidean (rpos (pos a)) (rpos c)) ` set (customers env)"
  have fin: "finite ?D" and ne: "?D \<noteq> {}" using assms by simp_all
  have "Min ?D = 0 \<longleftrightarrow> 0 \<in> ?D"
  proof
    assume "Min ?D = 0"
    then show "0 \<in> ?D" using Min_in [OF fin ne] by simp
  next
    assume z: "0 \<in> ?D"
    have "Min ?D \<le> 0" using Min_le [OF fin z] .
    moreover have "0 \<le> Min ?D" using fin ne by (simp add: euclidean_nonneg)
    ultimately show "Min ?D = 0" by simp
  qed
  also have "\<dots> \<longleftrightarrow> pos a \<in> set (customers env)"
    by (auto simp: euclidean_rpos_zero_iff image_iff)
  finally show ?thesis using assms by (simp add: nearest_dist_Min)
qed

lemma optimal_zero_iff:
  assumes "customers env \<noteq> []"
  shows "\<not> 0 < sum_list (map (nearest_dist env) agents)
         \<longleftrightarrow> (\<forall>a\<in>set agents. pos a \<in> set (customers env))"
proof -
  have nn: "\<forall>x\<in>set (map (nearest_dist env) agents). 0 \<le> x"
    using assms by (auto simp: nearest_dist_nonneg)
  then have "0 \<le> sum_list (map (nearest_dist env) agents)" by (intro sum_list_nonneg) auto
  then have "\<not> 0 < sum_list (map (nearest_dist env) agents)
      \<longleftrightarrow> sum_list (map (nearest_dist env) agents) = 0" by linarith
  also have "\<dots> \<longleftrightarrow> (\<forall>x\<in>set (map (nearest_dist env) agents). x = 0)"
    using nn by (intro sum_list_nonneg_eq_0_iff) auto
  also have "\<dots> \<longleftrightarrow> (\<forall>a\<in>set agents. pos a \<in> set (customers env))"
    using assms by (simp add: nearest_dist_zero_iff)
  finally show ?thesis .
qed

lemma competitive_ratio_unfold:
  "competitive_ratio agents env =
     (if customers env = [] then Finite (real_of_int (sum_list (map step agents)))
      else if 0 < sum_list (map (nearest_dist env) agents)
           then Finite (real_of_int (sum_list (map step agents)) / sum_list (map (nearest_dist env) agents))
           else PosInf)"
  by (simp add: competitive_ratio_def Let_def)

text \<open>
  C5. \<open>competitive_ratio\<close> returns the sum of the agents' step counts when no
  customer remains; otherwise that sum divided by the sum over the agents of the least
  Euclidean distance to a remaining customer, or infinity when this divisor is not
  positive. With step counts that are not negative (they start at 0 and only grow) the
  result is never negative, and it is infinity exactly when a customer remains and
  every agent stands on some remaining customer.
\<close>

theorem competitive_ratio_spec:
  assumes steps: "\<forall>a\<in>set agents. 0 \<le> step a"
  shows "(customers env = [] \<longrightarrow>
            competitive_ratio agents env = Finite (real_of_int (\<Sum>a\<leftarrow>agents. step a)))
       \<and> (customers env \<noteq> [] \<longrightarrow>
            competitive_ratio agents env =
              (let optimal = (\<Sum>a\<leftarrow>agents. Min ((\<lambda>c. euclidean (rpos (pos a)) (rpos c)) ` set (customers env)))
               in if optimal > 0 then Finite (real_of_int (\<Sum>a\<leftarrow>agents. step a) / optimal)
                  else PosInf))
       \<and> (case competitive_ratio agents env of Finite r \<Rightarrow> 0 \<le> r | PosInf \<Rightarrow> True)
       \<and> (competitive_ratio agents env = PosInf \<longleftrightarrow>
            customers env \<noteq> [] \<and> (\<forall>a\<in>set agents. pos a \<in> set (customers env)))"
proof -
  have tot: "0 \<le> (\<Sum>a\<leftarrow>agents. step a)" using steps by (intro sum_list_nonneg) auto
  have a: "customers env = [] \<longrightarrow>
            competitive_ratio agents env = Finite (real_of_int (\<Sum>a\<leftarrow>agents. step a))"
    by (simp add: competitive_ratio_unfold)
  have b: "customers env \<noteq> [] \<longrightarrow>
            competitive_ratio agents env =
              (let optimal = (\<Sum>a\<leftarrow>agents. Min ((\<lambda>c. euclidean (rpos (pos a)) (rpos c)) ` set (customers env)))
               in if optimal > 0 then Finite (real_of_int (\<Sum>a\<leftarrow>agents. step a) / optimal)
                  else PosInf)"
  proof
    assume ne: "customers env \<noteq> []"
    have "nearest_dist env = (\<lambda>a. Min ((\<lambda>c. euclidean (rpos (pos a)) (rpos c)) ` set (customers env)))"
      using ne by (intro ext) (simp add: nearest_dist_Min)
    then have "sum_list (map (nearest_dist env) agents) =
          (\<Sum>a\<leftarrow>agents. Min ((\<lambda>c. euclidean (rpos (pos a)) (rpos c)) ` set (customers env)))"
      by simp
    then show "competitive_ratio agents env =
              (let optimal = (\<Sum>a\<leftarrow>agents. Min ((\<lambda>c. euclidean (rpos (pos a)) (rpos c)) ` set (customers env)))
               in if optimal > 0 then Finite (real_of_int (\<Sum>a\<leftarrow>agents. step a) / optimal)
                  else PosInf)"
      using ne by (simp add: competitive_ratio_unfold Let_def)
  qed
  have c: "case competitive_ratio agents env of Finite r \<Rightarrow> 0 \<le> r | PosInf \<Rightarrow> True"
    using tot by (simp add: competitive_ratio_unfold)
  have d: "competitive_ratio agents env = PosInf \<longleftrightarrow>
            customers env \<noteq> [] \<and> (\<forall>a\<in>set agents. pos a \<in> set (customers env))"
    using optimal_zero_iff [of env agents] by (auto simp: competitive_ratio_unfold)
  show ?thesis using a b c d by blast
qed


theorem competitive_ratio_spec_witness:
  "0 \<le> step walker \<and> 0 \<le> step far_agent
   \<and> competitive_ratio [walker, far_agent] env20 \<noteq> PosInf
   \<and> competitive_ratio [walker] env20 = PosInf
   \<and> competitive_ratio [walker, far_agent] (env20\<lparr>customers := []\<rparr>) = Finite 7"
proof -
  have h2: "\<forall>a\<in>set [walker, far_agent]. 0 \<le> step a"
    by (simp add: walker_def far_agent_def new_agent_def)
  have h1: "\<forall>a\<in>set [walker]. 0 \<le> step a"
    by (simp add: walker_def new_agent_def)
  have "competitive_ratio [walker, far_agent] env20 = PosInf \<longleftrightarrow>
        customers env20 \<noteq> [] \<and> (\<forall>a\<in>set [walker, far_agent]. pos a \<in> set (customers env20))"
    using competitive_ratio_spec [OF h2, of env20] by blast
  then have a: "competitive_ratio [walker, far_agent] env20 \<noteq> PosInf"
    by (simp add: walker_def far_agent_def new_agent_def env20_def)
  have "competitive_ratio [walker] env20 = PosInf \<longleftrightarrow>
        customers env20 \<noteq> [] \<and> (\<forall>a\<in>set [walker]. pos a \<in> set (customers env20))"
    using competitive_ratio_spec [OF h1, of env20] by blast
  then have b: "competitive_ratio [walker] env20 = PosInf"
    by (simp add: walker_def new_agent_def env20_def)
  have "customers (env20\<lparr>customers := []\<rparr>) = [] \<longrightarrow>
        competitive_ratio [walker, far_agent] (env20\<lparr>customers := []\<rparr>)
          = Finite (real_of_int (\<Sum>a\<leftarrow>[walker, far_agent]. step a))"
    using competitive_ratio_spec [OF h2, of "env20\<lparr>customers := []\<rparr>"] by blast
  then have c: "competitive_ratio [walker, far_agent] (env20\<lparr>customers := []\<rparr>) = Finite 7"
    by (simp add: walker_def far_agent_def new_agent_def)
  have s: "0 \<le> step walker \<and> 0 \<le> step far_agent" using h2 by simp
  show ?thesis using s a b c by blast
qed

end
